theory Spec2Isabelle
  imports Complex_Main
begin

section \<open>Campus marketplace: conversations, offers, transactions and ratings\<close>

text \<open>
  A shallow embedding of the negotiation handlers of \<^verbatim>\<open>backend/app/routes/chat.py\<close>
  (\<^verbatim>\<open>create_conversation\<close>, \<^verbatim>\<open>send_purchase_offer\<close>, \<^verbatim>\<open>respond_to_offer\<close>,
  \<^verbatim>\<open>continue_conversation\<close>, \<^verbatim>\<open>rate_user\<close>, \<^verbatim>\<open>get_user_rating_summary\<close>) over the
  tables of \<^verbatim>\<open>backend/app/models\<close>.

  Conventions of the model:
  \<^item> Python integers are \<open>int\<close>; a nullable column is an \<open>option\<close>; Python truthiness of
    an optional integer (\<^verbatim>\<open>if x:\<close>) is "present and non-zero".
  \<^item> Python floats (prices, the rating average) are exact rationals: binary rounding of
    floating point is not modelled.
  \<^item> \<^verbatim>\<open>datetime.utcnow()\<close> is an argument \<open>now\<close> of each handler.
  \<^item> A table is the list of its rows in storage order; \<^verbatim>\<open>.first()\<close> is the first
    matching row of that list. The primary key of a row that SQLAlchemy has not flushed
    yet is \<open>None\<close>; it is assigned from the table's sequence when the row is inserted.
  \<^item> \<^verbatim>\<open>db.commit()\<close> writes the session's tables to the database and appends the
    written snapshot to \<open>commit_log\<close>. An \<^verbatim>\<open>HTTPException\<close> is the \<open>Inl\<close> result; the
    world returned with it is what had been committed when it was raised.
  \<^item> \<^verbatim>\<open>active_connections\<close> is the set of connected user ids; every \<^verbatim>\<open>send_json\<close>
    to a connected user is appended to \<open>sent\<close> (a failing send is caught by the source
    and changes nothing else).
  \<^item> Message and notification texts are kept as the f-string template and its
    arguments; rendering them (emoji, two-decimal formatting) is not modelled.
\<close>

subsection \<open>Rows\<close>

type_synonym time = nat

text \<open>\<^verbatim>\<open>models/user.py\<close> and \<^verbatim>\<open>models/item.py\<close> are read through these columns only.\<close>

record user =
  u_id :: int
  username :: string
  full_name :: string

record item =
  i_id :: int
  seller_id :: int
  title :: string
  status :: string
  price :: rat
  i_updated_by :: "string option"

record conversation =
  c_id :: "int option"
  user1_id :: int
  user2_id :: int
  item_id :: "int option"
  last_message_at :: "time option"
  is_sold :: bool
  sold_at :: "time option"
  transaction_id :: "int option"
  pending_offer_price :: "int option"
  pending_offer_from_user_id :: "int option"
  pending_offer_at :: "time option"
  is_ended :: bool
  ended_at :: "time option"
  is_reported :: bool
  reported_at :: "time option"
  reported_by :: "int option"
  report_reason :: "string option"
  c_created_by :: "string option"
  c_updated_by :: "string option"

datatype body =
    Text string
  | PurchaseOfferText rat
  | OfferText rat
  | AcceptedOfferText rat
  | RejectedOfferText
  | CounterOfferText rat

record message =
  m_id :: "int option"
  m_conversation_id :: int
  sender_id :: int
  content :: body
  is_read :: bool
  read_at :: "time option"
  m_created_by :: "string option"

record transaction =
  tx_id :: "int option"
  tx_item_id :: "int option"
  tx_seller_id :: int
  tx_buyer_id :: int
  tx_conversation_id :: "int option"
  sale_price :: rat
  original_price :: "rat option"
  is_completed :: bool
  completed_at :: "time option"
  tx_notes :: "string option"
  tx_created_by :: "string option"

datatype notification_type = MESSAGE | ITEM_INTEREST | ITEM_SOLD | SYSTEM

datatype note_text =
    SentYouAMessage string
  | OfferedToSell string string rat
  | MadeAnOffer string rat string
  | AcceptedYourOffer string string
  | RejectedYourOffer string string
  | CounteredWith string rat string

record notification =
  n_id :: "int option"
  n_user_id :: int
  n_type :: notification_type
  n_title :: string
  n_message :: note_text
  n_is_read :: bool
  related_item_id :: "int option"
  related_user_id :: "int option"
  related_conversation_id :: "int option"
  n_created_by :: "string option"

record rating =
  r_id :: "int option"
  r_transaction_id :: int
  rater_id :: int
  rated_user_id :: int
  rating_value :: int
  comment :: "string option"
  r_created_by :: "string option"
  r_updated_by :: "string option"

subsection \<open>Database, session and connections\<close>

record tables =
  users :: "user list"
  items :: "item list"
  conversations :: "conversation list"
  messages :: "message list"
  transactions :: "transaction list"
  notifications :: "notification list"
  ratings :: "rating list"
  next_conversation_id :: int
  next_message_id :: int
  next_transaction_id :: int
  next_notification_id :: int
  next_rating_id :: int

record conversation_update =
  cu_conversation_id :: "int option"
  cu_item_id :: "int option"
  cu_is_sold :: bool
  cu_is_ended :: bool
  cu_transaction_id :: "int option"
  cu_transaction :: "transaction option"
  cu_item_title :: "string option"
  cu_item_status :: "string option"
  cu_item_price :: "rat option"
  cu_updated_at :: time

record item_sold =
  is_transaction_id :: "int option"
  is_conversation_id :: int
  is_item_id :: int
  is_item_title :: string
  is_seller_name :: string
  is_buyer_name :: string
  is_sale_price :: rat
  is_original_price :: "rat option"
  is_transaction :: transaction

record purchase_offer =
  po_conversation_id :: int
  po_item_id :: int
  po_item_title :: string
  po_offerer_name :: string
  po_offer_price :: rat
  po_original_price :: rat
  po_is_from_seller :: bool

datatype event =
    ConversationUpdated conversation_update
  | ItemSold item_sold
  | PurchaseOffer purchase_offer
  | MessageEvent message string string
  | NotificationEvent notification

record world =
  db :: tables
  commit_log :: "tables list"
  active_connections :: "int set"
  sent :: "(int \<times> event) list"

datatype http_error = HTTPException nat string

definition commit :: "tables \<Rightarrow> world \<Rightarrow> world" where
  "commit t s = s\<lparr>db := t, commit_log := commit_log s @ [t]\<rparr>"

definition send_json :: "int \<Rightarrow> event \<Rightarrow> world \<Rightarrow> world" where
  "send_json uid ev s =
     (if uid \<in> active_connections s then s\<lparr>sent := sent s @ [(uid, ev)]\<rparr> else s)"

definition truthy :: "int option \<Rightarrow> bool" where
  "truthy x = (case x of None \<Rightarrow> False | Some n \<Rightarrow> n \<noteq> 0)"

definition get_user :: "tables \<Rightarrow> int \<Rightarrow> user option" where
  "get_user t uid = find (\<lambda>u. u_id u = uid) (users t)"

definition get_item :: "tables \<Rightarrow> int option \<Rightarrow> item option" where
  "get_item t iid =
     (case iid of None \<Rightarrow> None | Some i \<Rightarrow> find (\<lambda>x. i_id x = i) (items t))"

definition get_conversation :: "tables \<Rightarrow> int \<Rightarrow> conversation option" where
  "get_conversation t cid = find (\<lambda>c. c_id c = Some cid) (conversations t)"

definition get_transaction :: "tables \<Rightarrow> int \<Rightarrow> transaction option" where
  "get_transaction t tid = find (\<lambda>x. tx_id x = Some tid) (transactions t)"

text \<open>An attribute write on a loaded row reaches the database as an UPDATE by primary key.\<close>

definition save_conversation :: "conversation \<Rightarrow> tables \<Rightarrow> tables" where
  "save_conversation c t =
     t\<lparr>conversations := map (\<lambda>x. if c_id x = c_id c then c else x) (conversations t)\<rparr>"

definition save_item :: "item \<Rightarrow> tables \<Rightarrow> tables" where
  "save_item i t = t\<lparr>items := map (\<lambda>x. if i_id x = i_id i then i else x) (items t)\<rparr>"

definition save_rating :: "rating \<Rightarrow> tables \<Rightarrow> tables" where
  "save_rating r t = t\<lparr>ratings := map (\<lambda>x. if r_id x = r_id r then r else x) (ratings t)\<rparr>"

text \<open>\<^verbatim>\<open>db.add(row)\<close>: the row as it is stored, and the table after the insert.\<close>

definition stored_conversation :: "tables \<Rightarrow> conversation \<Rightarrow> conversation" where
  "stored_conversation t c = c\<lparr>c_id := Some (next_conversation_id t)\<rparr>"

definition add_conversation :: "conversation \<Rightarrow> tables \<Rightarrow> tables" where
  "add_conversation c t =
     t\<lparr>conversations := conversations t @ [stored_conversation t c],
       next_conversation_id := next_conversation_id t + 1\<rparr>"

definition stored_message :: "tables \<Rightarrow> message \<Rightarrow> message" where
  "stored_message t m = m\<lparr>m_id := Some (next_message_id t)\<rparr>"

definition add_message :: "message \<Rightarrow> tables \<Rightarrow> tables" where
  "add_message m t =
     t\<lparr>messages := messages t @ [stored_message t m],
       next_message_id := next_message_id t + 1\<rparr>"

definition stored_transaction :: "tables \<Rightarrow> transaction \<Rightarrow> transaction" where
  "stored_transaction t x = x\<lparr>tx_id := Some (next_transaction_id t)\<rparr>"

definition add_transaction :: "transaction \<Rightarrow> tables \<Rightarrow> tables" where
  "add_transaction x t =
     t\<lparr>transactions := transactions t @ [stored_transaction t x],
       next_transaction_id := next_transaction_id t + 1\<rparr>"

definition stored_notification :: "tables \<Rightarrow> notification \<Rightarrow> notification" where
  "stored_notification t n = n\<lparr>n_id := Some (next_notification_id t)\<rparr>"

definition add_notification :: "notification \<Rightarrow> tables \<Rightarrow> tables" where
  "add_notification n t =
     t\<lparr>notifications := notifications t @ [stored_notification t n],
       next_notification_id := next_notification_id t + 1\<rparr>"

definition stored_rating :: "tables \<Rightarrow> rating \<Rightarrow> rating" where
  "stored_rating t r = r\<lparr>r_id := Some (next_rating_id t)\<rparr>"

definition add_rating :: "rating \<Rightarrow> tables \<Rightarrow> tables" where
  "add_rating r t =
     t\<lparr>ratings := ratings t @ [stored_rating t r],
       next_rating_id := next_rating_id t + 1\<rparr>"

subsection \<open>Notifications and the conversation-update broadcast\<close>

definition create_notification ::
  "world \<Rightarrow> int \<Rightarrow> notification_type \<Rightarrow> string \<Rightarrow> note_text \<Rightarrow>
   int option \<Rightarrow> int option \<Rightarrow> int option \<Rightarrow> world" where
  "create_notification s user_id notification_type ntitle nmessage
       rel_item_id rel_user_id rel_conversation_id =
     (let n = \<lparr>n_id = None, n_user_id = user_id, n_type = notification_type,
               n_title = ntitle, n_message = nmessage, n_is_read = False,
               related_item_id = rel_item_id, related_user_id = rel_user_id,
               related_conversation_id = rel_conversation_id,
               n_created_by = Some ''system''\<rparr>
      in commit (add_notification n (db s)) s)"

definition conversation_update_payload :: "tables \<Rightarrow> time \<Rightarrow> conversation \<Rightarrow> conversation_update" where
  "conversation_update_payload t now c =
     (let it = (if truthy (item_id c) then get_item t (item_id c) else None);
          tx = (if truthy (transaction_id c)
                then (case transaction_id c of None \<Rightarrow> None | Some i \<Rightarrow> get_transaction t i)
                else None)
      in \<lparr>cu_conversation_id = c_id c, cu_item_id = item_id c,
          cu_is_sold = is_sold c, cu_is_ended = is_ended c,
          cu_transaction_id = transaction_id c, cu_transaction = tx,
          cu_item_title = map_option title it, cu_item_status = map_option status it,
          cu_item_price = map_option price it, cu_updated_at = now\<rparr>)"

definition broadcast_conversation_update :: "time \<Rightarrow> conversation \<Rightarrow> world \<Rightarrow> world" where
  "broadcast_conversation_update now c s =
     (let ev = ConversationUpdated (conversation_update_payload (db s) now c)
      in send_json (user2_id c) ev (send_json (user1_id c) ev s))"

subsection \<open>Responding to an offer\<close>

text \<open>
  The JSON body of \<^verbatim>\<open>respond_to_offer\<close>: \<^verbatim>\<open>response_data.get("action")\<close> and
  \<^verbatim>\<open>response_data.get("counter_price")\<close>, \<open>None\<close> for a missing key. The counter price
  is a number (the model does not cover a body whose counter price is not numeric).
  The detail text of the last error is the source's without its quotation marks.
\<close>

record response_data =
  action :: "string option"
  counter_price :: "rat option"

datatype offer_response =
    TransactionResponse transaction
  | OfferRejected
  | CounterOfferSent rat

text \<open>Python's \<^verbatim>\<open>int(x)\<close> on a float: truncation towards zero.\<close>

definition py_int :: "rat \<Rightarrow> int" where
  "py_int x = (if 0 \<le> x then \<lfloor>x\<rfloor> else \<lceil>x\<rceil>)"

text \<open>
  The guard \<^verbatim>\<open>if not conversation.pending_offer_price or not
  conversation.pending_offer_from_user_id\<close>: the pending price in cents and its author
  when both are truthy, \<open>None\<close> when the guard raises.
\<close>

definition pending_offer :: "conversation \<Rightarrow> (int \<times> int) option" where
  "pending_offer c =
     (if \<not> truthy (pending_offer_price c) \<or> \<not> truthy (pending_offer_from_user_id c)
      then None
      else (case (pending_offer_price c, pending_offer_from_user_id c) of
              (Some p, Some f) \<Rightarrow> Some (p, f) | _ \<Rightarrow> None))"

definition user_name_or_unknown :: "user option \<Rightarrow> string" where
  "user_name_or_unknown u = (case u of None \<Rightarrow> ''Unknown'' | Some x \<Rightarrow> full_name x)"

text \<open>
  The branch \<^verbatim>\<open>if action == "accept":\<close> of \<^verbatim>\<open>respond_to_offer\<close>, in three parts: the
  \<^verbatim>\<open>Transaction(...)\<close> object as constructed (its \<^verbatim>\<open>id\<close> is \<open>None\<close> until the flush),
  the session's writes up to the first \<^verbatim>\<open>db.commit()\<close>, and the branch itself.
\<close>

definition accept_transaction ::
  "time \<Rightarrow> int \<Rightarrow> conversation \<Rightarrow> int \<Rightarrow> item \<Rightarrow> user \<Rightarrow> transaction" where
  "accept_transaction now conversation_id conversation cents it current_user =
     (let seller = seller_id it;
          buyer = (if user1_id conversation = seller then user2_id conversation
                   else user1_id conversation);
          price_sold = of_int cents / 100
      in \<lparr>tx_id = None, tx_item_id = item_id conversation, tx_seller_id = seller,
          tx_buyer_id = buyer, tx_conversation_id = Some conversation_id,
          sale_price = price_sold, original_price = Some (price it),
          is_completed = True, completed_at = Some now, tx_notes = None,
          tx_created_by = Some (username current_user)\<rparr>)"

definition accept_conversation ::
  "time \<Rightarrow> conversation \<Rightarrow> transaction \<Rightarrow> user \<Rightarrow> conversation" where
  "accept_conversation now conversation tx current_user =
     conversation\<lparr>is_sold := True, sold_at := Some now,
       transaction_id := tx_id tx, is_ended := True, ended_at := Some now,
       pending_offer_price := None, pending_offer_from_user_id := None,
       pending_offer_at := None, c_updated_by := Some (username current_user),
       last_message_at := Some now\<rparr>"

definition accept_writes ::
  "tables \<Rightarrow> time \<Rightarrow> int \<Rightarrow> conversation \<Rightarrow> int \<Rightarrow> item \<Rightarrow> user \<Rightarrow> tables" where
  "accept_writes t now conversation_id conversation cents it current_user =
     (let tx = accept_transaction now conversation_id conversation cents it current_user;
          it' = it\<lparr>status := ''SOLD'', i_updated_by := Some (username current_user)\<rparr>;
          conversation' = accept_conversation now conversation tx current_user;
          accept_message = \<lparr>m_id = None, m_conversation_id = conversation_id,
                sender_id = u_id current_user, content = AcceptedOfferText (sale_price tx),
                is_read = False, read_at = None,
                m_created_by = Some (username current_user)\<rparr>
      in add_message accept_message
           (save_conversation conversation' (save_item it' (add_transaction tx t))))"

definition accept_offer ::
  "world \<Rightarrow> time \<Rightarrow> int \<Rightarrow> conversation \<Rightarrow> int \<Rightarrow> item \<Rightarrow> user \<Rightarrow>
   world \<times> (http_error + offer_response)" where
  "accept_offer s now conversation_id conversation cents it current_user =
     (let seller = seller_id it;
          buyer = (if user1_id conversation = seller then user2_id conversation
                   else user1_id conversation);
          tx = accept_transaction now conversation_id conversation cents it current_user;
          conversation' = accept_conversation now conversation tx current_user;
          s1 = commit (accept_writes (db s) now conversation_id conversation cents it
                         current_user) s;
          tx' = stored_transaction (db s) tx;
          seller_row = get_user (db s1) seller;
          buyer_row = get_user (db s1) buyer;
          other_party_id = (if u_id current_user = seller then buyer else seller);
          other_party = (if u_id current_user = seller then buyer_row else seller_row);
          s2 = (case other_party of
                  None \<Rightarrow> s1
                | Some _ \<Rightarrow> create_notification s1 other_party_id SYSTEM ''Offer Accepted!''
                     (AcceptedYourOffer (full_name current_user) (title it))
                     (Some (i_id it)) (Some (u_id current_user)) (Some conversation_id));
          sold = ItemSold \<lparr>is_transaction_id = tx_id tx', is_conversation_id = conversation_id,
                is_item_id = i_id it, is_item_title = title it,
                is_seller_name = user_name_or_unknown seller_row,
                is_buyer_name = user_name_or_unknown buyer_row,
                is_sale_price = sale_price tx', is_original_price = original_price tx',
                is_transaction = tx'\<rparr>;
          s3 = send_json buyer sold (send_json seller sold s2);
          s4 = broadcast_conversation_update now conversation' s3
      in (s4, Inr (TransactionResponse tx')))"

text \<open>The branch \<^verbatim>\<open>elif action == "reject":\<close>.\<close>

definition reject_offer ::
  "world \<Rightarrow> time \<Rightarrow> int \<Rightarrow> conversation \<Rightarrow> item \<Rightarrow> user \<Rightarrow>
   world \<times> (http_error + offer_response)" where
  "reject_offer s now conversation_id conversation it current_user =
     (let conversation' = conversation\<lparr>pending_offer_price := None,
                pending_offer_from_user_id := None, pending_offer_at := None,
                c_updated_by := Some (username current_user),
                last_message_at := Some now\<rparr>;
          reject_message = \<lparr>m_id = None, m_conversation_id = conversation_id,
                sender_id = u_id current_user, content = RejectedOfferText,
                is_read = False, read_at = None,
                m_created_by = Some (username current_user)\<rparr>;
          s1 = commit (add_message reject_message (save_conversation conversation' (db s))) s;
          offer_sender_id = pending_offer_from_user_id conversation';
          s2 = (if truthy offer_sender_id
                then (case offer_sender_id of
                        None \<Rightarrow> s1
                      | Some sender \<Rightarrow>
                          (case get_user (db s1) sender of
                             None \<Rightarrow> s1
                           | Some _ \<Rightarrow> create_notification s1 sender SYSTEM ''Offer Rejected''
                               (RejectedYourOffer (full_name current_user) (title it))
                               (Some (i_id it)) (Some (u_id current_user))
                               (Some conversation_id)))
                else s1);
          s3 = broadcast_conversation_update now conversation' s2
      in (s3, Inr OfferRejected))"

text \<open>The branch \<^verbatim>\<open>elif action == "counter":\<close>.\<close>

definition counter_offer ::
  "world \<Rightarrow> time \<Rightarrow> int \<Rightarrow> conversation \<Rightarrow> item \<Rightarrow> rat option \<Rightarrow> user \<Rightarrow>
   world \<times> (http_error + offer_response)" where
  "counter_offer s now conversation_id conversation it cp current_user =
     (case cp of
        None \<Rightarrow> (s, Inl (HTTPException 400 ''Invalid counter offer price''))
      | Some counter \<Rightarrow>
          if counter = 0 \<or> counter \<le> 0
          then (s, Inl (HTTPException 400 ''Invalid counter offer price''))
          else
            (let other_user_id = (if user1_id conversation = u_id current_user
                                  then user2_id conversation else user1_id conversation);
                 conversation' = conversation\<lparr>
                     pending_offer_price := Some (py_int (counter * 100)),
                     pending_offer_from_user_id := Some (u_id current_user),
                     pending_offer_at := Some now,
                     c_updated_by := Some (username current_user),
                     last_message_at := Some now\<rparr>;
                 counter_message = \<lparr>m_id = None, m_conversation_id = conversation_id,
                     sender_id = u_id current_user, content = CounterOfferText counter,
                     is_read = False, read_at = None,
                     m_created_by = Some (username current_user)\<rparr>;
                 s1 = commit (add_message counter_message
                                (save_conversation conversation' (db s))) s;
                 s2 = (case get_user (db s1) other_user_id of
                         None \<Rightarrow> s1
                       | Some _ \<Rightarrow> create_notification s1 other_user_id SYSTEM ''Counter Offer''
                           (CounteredWith (full_name current_user) counter (title it))
                           (Some (i_id it)) (Some (u_id current_user)) (Some conversation_id));
                 s3 = send_json other_user_id
                        (PurchaseOffer \<lparr>po_conversation_id = conversation_id,
                           po_item_id = i_id it, po_item_title = title it,
                           po_offerer_name = full_name current_user,
                           po_offer_price = counter, po_original_price = price it,
                           po_is_from_seller = (seller_id it = u_id current_user)\<rparr>) s2;
                 s4 = broadcast_conversation_update now conversation' s3
             in (s4, Inr (CounterOfferSent counter))))"

definition respond_to_offer ::
  "world \<Rightarrow> time \<Rightarrow> int \<Rightarrow> response_data \<Rightarrow> user \<Rightarrow>
   world \<times> (http_error + offer_response)" where
  "respond_to_offer s now conversation_id rd current_user =
     (case get_conversation (db s) conversation_id of
        None \<Rightarrow> (s, Inl (HTTPException 404 ''Conversation not found''))
      | Some conversation \<Rightarrow>
          if user1_id conversation \<noteq> u_id current_user
             \<and> user2_id conversation \<noteq> u_id current_user
          then (s, Inl (HTTPException 403
                  ''Not authorized to respond to offers in this conversation''))
          else
            (case pending_offer conversation of
               None \<Rightarrow> (s, Inl (HTTPException 400 ''No pending offer to respond to''))
             | Some (cents, _) \<Rightarrow>
                 (case get_item (db s) (item_id conversation) of
                    None \<Rightarrow> (s, Inl (HTTPException 404 ''Item not found''))
                  | Some it \<Rightarrow>
                      if action rd = Some ''accept''
                      then accept_offer s now conversation_id conversation cents it current_user
                      else if action rd = Some ''reject''
                      then reject_offer s now conversation_id conversation it current_user
                      else if action rd = Some ''counter''
                      then counter_offer s now conversation_id conversation it
                             (counter_price rd) current_user
                      else (s, Inl (HTTPException 400
                              ''Invalid action. Must be accept, reject, or counter'')))))"

subsection \<open>Creating or reusing a conversation\<close>

record conversation_create =
  cc_user2_id :: int
  cc_item_id :: "int option"

text \<open>
  \<^verbatim>\<open>ConversationResponse\<close> without \<^verbatim>\<open>created_at\<close>, \<^verbatim>\<open>last_message\<close> and the
  per-user \<^verbatim>\<open>status\<close>, which no handler modelled here writes.
\<close>

record conversation_response =
  cr_id :: "int option"
  cr_user1_id :: int
  cr_user2_id :: int
  cr_item_id :: "int option"
  cr_last_message_at :: "time option"
  cr_other_user_id :: int
  cr_other_user_username :: string
  cr_other_user_full_name :: string
  cr_unread_count :: nat
  cr_is_sold :: bool
  cr_is_ended :: bool
  cr_transaction_id :: "int option"
  cr_transaction :: "transaction option"
  cr_pending_offer_price :: "rat option"
  cr_pending_offer_from_user_id :: "int option"
  cr_pending_offer_at :: "time option"

definition same_pair :: "int \<Rightarrow> int \<Rightarrow> conversation \<Rightarrow> bool" where
  "same_pair a b c =
     ((user1_id c = a \<and> user2_id c = b) \<or> (user1_id c = b \<and> user2_id c = a))"

definition existing_response :: "tables \<Rightarrow> conversation \<Rightarrow> int \<Rightarrow> int \<Rightarrow> conversation_response" where
  "existing_response t existing user1 user2 =
     (let other_user_id = (if user1_id existing = user1 then user2 else user1_id existing);
          other_user = get_user t other_user_id;
          unread = length (filter (\<lambda>m. Some (m_conversation_id m) = c_id existing
                                       \<and> sender_id m \<noteq> user1 \<and> \<not> is_read m) (messages t));
          tx = (if truthy (transaction_id existing)
                then (case transaction_id existing of
                        None \<Rightarrow> None | Some i \<Rightarrow> get_transaction t i)
                else None);
          pending_price = (if truthy (pending_offer_price existing)
                           then map_option (\<lambda>p. of_int p / 100) (pending_offer_price existing)
                           else None)
      in \<lparr>cr_id = c_id existing, cr_user1_id = user1_id existing,
          cr_user2_id = user2_id existing, cr_item_id = item_id existing,
          cr_last_message_at = last_message_at existing,
          cr_other_user_id = other_user_id,
          cr_other_user_username = (case other_user of None \<Rightarrow> [] | Some u \<Rightarrow> username u),
          cr_other_user_full_name = (case other_user of None \<Rightarrow> [] | Some u \<Rightarrow> full_name u),
          cr_unread_count = unread,
          cr_is_sold = is_sold existing, cr_is_ended = is_ended existing,
          cr_transaction_id = transaction_id existing, cr_transaction = tx,
          cr_pending_offer_price = pending_price,
          cr_pending_offer_from_user_id = pending_offer_from_user_id existing,
          cr_pending_offer_at = pending_offer_at existing\<rparr>)"

text \<open>
  The attribute writes of \<^verbatim>\<open>create_conversation\<close> on an existing row when another item
  id is supplied: the new item id, then "auto-resume" and "reset sale-related flags".
\<close>

definition switch_item :: "conversation \<Rightarrow> int option \<Rightarrow> conversation" where
  "switch_item existing new_item_id =
     (let e1 = existing\<lparr>item_id := new_item_id\<rparr>;
          e2 = (if is_ended e1 then e1\<lparr>is_ended := False, ended_at := None\<rparr> else e1);
          e3 = (if is_sold e2
                then e2\<lparr>is_sold := False, sold_at := None, transaction_id := None\<rparr>
                else e2)
      in e3)"

definition create_conversation ::
  "world \<Rightarrow> time \<Rightarrow> conversation_create \<Rightarrow> user \<Rightarrow>
   world \<times> (http_error + conversation_response)" where
  "create_conversation s now conversation_data current_user =
     (let user1 = u_id current_user; user2 = cc_user2_id conversation_data
      in if user1 = user2
         then (s, Inl (HTTPException 400 ''Cannot create conversation with yourself''))
         else
           (case get_user (db s) user2 of
              None \<Rightarrow> (s, Inl (HTTPException 404 ''User not found''))
            | Some user2_row \<Rightarrow>
                (case find (same_pair user1 user2) (conversations (db s)) of
                   Some existing \<Rightarrow>
                     if truthy (cc_item_id conversation_data)
                        \<and> item_id existing \<noteq> cc_item_id conversation_data
                     then
                       (let e = switch_item existing (cc_item_id conversation_data);
                            s1 = commit (save_conversation e (db s)) s;
                            s2 = broadcast_conversation_update now e s1
                        in (s2, Inr (existing_response (db s2) e user1 user2)))
                     else (s, Inr (existing_response (db s) existing user1 user2))
                 | None \<Rightarrow>
                     (let c = \<lparr>c_id = None, user1_id = user1, user2_id = user2,
                               item_id = cc_item_id conversation_data,
                               last_message_at = None, is_sold = False, sold_at = None,
                               transaction_id = None, pending_offer_price = None,
                               pending_offer_from_user_id = None, pending_offer_at = None,
                               is_ended = False, ended_at = None, is_reported = False,
                               reported_at = None, reported_by = None, report_reason = None,
                               c_created_by = Some (username current_user),
                               c_updated_by = None\<rparr>;
                          c' = stored_conversation (db s) c;
                          s1 = commit (add_conversation c (db s)) s
                      in (s1, Inr \<lparr>cr_id = c_id c', cr_user1_id = user1_id c',
                             cr_user2_id = user2_id c', cr_item_id = item_id c',
                             cr_last_message_at = last_message_at c',
                             cr_other_user_id = user2,
                             cr_other_user_username = username user2_row,
                             cr_other_user_full_name = full_name user2_row,
                             cr_unread_count = 0, cr_is_sold = False, cr_is_ended = False,
                             cr_transaction_id = None, cr_transaction = None,
                             cr_pending_offer_price = None,
                             cr_pending_offer_from_user_id = None,
                             cr_pending_offer_at = None\<rparr>)))))"

subsection \<open>Sending an offer, continuing after a sale\<close>

text \<open>
  \<^verbatim>\<open>TransactionCreate.sale_price\<close> is validated (\<^verbatim>\<open>gt=0\<close>) before the handler runs; a
  body that fails is answered with 422.
\<close>

definition send_purchase_offer ::
  "world \<Rightarrow> time \<Rightarrow> int \<Rightarrow> rat \<Rightarrow> user \<Rightarrow> world \<times> (http_error + rat)" where
  "send_purchase_offer s now conversation_id offer current_user =
     (if \<not> 0 < offer then (s, Inl (HTTPException 422 ''Sale price must be greater than 0''))
      else
      (case get_conversation (db s) conversation_id of
         None \<Rightarrow> (s, Inl (HTTPException 404 ''Conversation not found''))
       | Some conversation \<Rightarrow>
           if user1_id conversation \<noteq> u_id current_user
              \<and> user2_id conversation \<noteq> u_id current_user
           then (s, Inl (HTTPException 403
                   ''Not authorized to send offers in this conversation''))
           else if \<not> truthy (item_id conversation)
           then (s, Inl (HTTPException 400 ''Conversation is not associated with an item''))
           else
             (case get_item (db s) (item_id conversation) of
                None \<Rightarrow> (s, Inl (HTTPException 404 ''Item not found''))
              | Some it \<Rightarrow>
                  (let other_user_id = (if user1_id conversation = u_id current_user
                                        then user2_id conversation
                                        else user1_id conversation);
                       is_seller = (seller_id it = u_id current_user)
                   in if is_sold conversation
                      then (s, Inl (HTTPException 400
                              ''Item already sold in this conversation''))
                      else
                        (let conversation' = conversation\<lparr>
                               pending_offer_price := Some (py_int (offer * 100)),
                               pending_offer_from_user_id := Some (u_id current_user),
                               pending_offer_at := Some now,
                               c_updated_by := Some (username current_user),
                               last_message_at := Some now\<rparr>;
                             offer_message = \<lparr>m_id = None,
                               m_conversation_id = conversation_id,
                               sender_id = u_id current_user,
                               content = (if is_seller then PurchaseOfferText offer
                                          else OfferText offer),
                               is_read = False, read_at = None,
                               m_created_by = Some (username current_user)\<rparr>;
                             offer_message' =
                               stored_message (save_conversation conversation' (db s))
                                 offer_message;
                             s1 = commit (add_message offer_message
                                            (save_conversation conversation' (db s))) s;
                             s2 = (case get_user (db s1) other_user_id of
                                     None \<Rightarrow> s1
                                   | Some _ \<Rightarrow>
                                       if is_seller
                                       then create_notification s1 other_user_id SYSTEM
                                              ''New Purchase Offer''
                                              (OfferedToSell (full_name current_user)
                                                 (title it) offer)
                                              (Some (i_id it)) (Some (u_id current_user))
                                              (Some conversation_id)
                                       else create_notification s1 other_user_id SYSTEM
                                              ''New Offer''
                                              (MadeAnOffer (full_name current_user) offer
                                                 (title it))
                                              (Some (i_id it)) (Some (u_id current_user))
                                              (Some conversation_id));
                             s3 = send_json other_user_id
                                    (PurchaseOffer \<lparr>po_conversation_id = conversation_id,
                                       po_item_id = i_id it, po_item_title = title it,
                                       po_offerer_name = full_name current_user,
                                       po_offer_price = offer, po_original_price = price it,
                                       po_is_from_seller = is_seller\<rparr>) s2;
                             s4 = send_json other_user_id
                                    (MessageEvent offer_message' (username current_user)
                                       (full_name current_user)) s3
                         in (s4, Inr offer))))))"

definition continue_conversation ::
  "world \<Rightarrow> int \<Rightarrow> user \<Rightarrow> world \<times> (http_error + unit)" where
  "continue_conversation s conversation_id current_user =
     (case get_conversation (db s) conversation_id of
        None \<Rightarrow> (s, Inl (HTTPException 404 ''Conversation not found''))
      | Some conversation \<Rightarrow>
          if user1_id conversation \<noteq> u_id current_user
             \<and> user2_id conversation \<noteq> u_id current_user
          then (s, Inl (HTTPException 403 ''Not authorized to continue this conversation''))
          else
            (let conversation' = conversation\<lparr>is_ended := False, ended_at := None,
                   c_updated_by := Some (username current_user)\<rparr>
             in (commit (save_conversation conversation' (db s)) s, Inr ())))"

subsection \<open>Ratings\<close>







subsection \<open>Reachable worlds\<close>

text \<open>
  The sale flag and the pending-offer columns of a conversation row are written by
  \<^verbatim>\<open>create_conversation\<close>, \<^verbatim>\<open>send_purchase_offer\<close> and \<^verbatim>\<open>respond_to_offer\<close> only. Every
  other handler (\<^verbatim>\<open>create_message\<close>, \<^verbatim>\<open>archive_conversation\<close>, \<^verbatim>\<open>report_conversation\<close>,
  \<^verbatim>\<open>delete_conversation\<close>, the item, file and notification routes, a WebSocket
  connecting or closing) leaves these three columns of every remaining row as they are:
  rule \<open>other\<close>. A world is reachable when handlers lead to it from a database without
  conversations.
\<close>

definition offer_state :: "conversation \<Rightarrow> bool \<times> int option \<times> int option" where
  "offer_state c = (is_sold c, pending_offer_price c, pending_offer_from_user_id c)"

inductive reachable :: "world \<Rightarrow> bool" where
  fresh: "conversations (db s) = [] \<Longrightarrow> reachable s"
| other: "reachable s \<Longrightarrow>
          offer_state ` set (conversations (db s')) \<subseteq> offer_state ` set (conversations (db s)) \<Longrightarrow>
          reachable s'"
| create: "reachable s \<Longrightarrow> reachable (fst (create_conversation s now conversation_data u))"
| offer: "reachable s \<Longrightarrow> reachable (fst (send_purchase_offer s now cid p u))"
| respond: "reachable s \<Longrightarrow> reachable (fst (respond_to_offer s now cid rd u))"
| continue: "reachable s \<Longrightarrow> reachable (fst (continue_conversation s cid u))"

subsection \<open>A marketplace with two users and one listing\<close>

text \<open>
  Alice (user 1) lists a book (item 10). Bob (user 2) opens a conversation about it
  and offers 50, which is stored as 5000 cents. Both are connected.
\<close>

definition alice :: user where
  "alice = \<lparr>u_id = 1, username = ''alice'', full_name = ''Alice''\<rparr>"

definition bob :: user where
  "bob = \<lparr>u_id = 2, username = ''bob'', full_name = ''Bob''\<rparr>"

definition book :: item where
  "book = \<lparr>i_id = 10, seller_id = 1, title = ''Book'', status = ''AVAILABLE'', price = 60,
            i_updated_by = None\<rparr>"

definition fresh_db :: tables where
  "fresh_db = \<lparr>users = [alice, bob], items = [book], conversations = [], messages = [],
     transactions = [], notifications = [], ratings = [],
     next_conversation_id = 1, next_message_id = 1, next_transaction_id = 1,
     next_notification_id = 1, next_rating_id = 1\<rparr>"

definition world0 :: world where
  "world0 = \<lparr>db = fresh_db, commit_log = [], active_connections = {1, 2}, sent = []\<rparr>"

definition world_conv :: world where
  "world_conv =
     fst (create_conversation world0 0 \<lparr>cc_user2_id = 1, cc_item_id = Some 10\<rparr> bob)"

definition world_offer :: world where
  "world_offer = fst (send_purchase_offer world_conv 1 1 50 bob)"

definition conv_offer :: conversation where
  "conv_offer = \<lparr>c_id = Some 1, user1_id = 2, user2_id = 1, item_id = Some 10,
     last_message_at = Some 1, is_sold = False, sold_at = None, transaction_id = None,
     pending_offer_price = Some 5000, pending_offer_from_user_id = Some 2,
     pending_offer_at = Some 1, is_ended = False, ended_at = None, is_reported = False,
     reported_at = None, reported_by = None, report_reason = None,
     c_created_by = Some ''bob'', c_updated_by = Some ''bob''\<rparr>"

definition accept :: response_data where
  "accept = \<lparr>action = Some ''accept'', counter_price = None\<rparr>"

definition reject :: response_data where
  "reject = \<lparr>action = Some ''reject'', counter_price = None\<rparr>"

definition counter :: "rat \<Rightarrow> response_data" where
  "counter p = \<lparr>action = Some ''counter'', counter_price = Some p\<rparr>"

definition world_sold :: world where
  "world_sold = fst (respond_to_offer world_offer 2 1 accept alice)"

definition world_rejected :: world where
  "world_rejected = fst (respond_to_offer world_offer 2 1 reject alice)"

definition sale_by_bob :: transaction where
  "sale_by_bob = \<lparr>tx_id = Some 1, tx_item_id = Some 10, tx_seller_id = 1, tx_buyer_id = 2,
     tx_conversation_id = Some 1, sale_price = 50, original_price = Some 60,
     is_completed = True, completed_at = Some 2, tx_notes = None,
     tx_created_by = Some ''bob''\<rparr>"

definition conv_sold :: conversation where
  "conv_sold = conv_offer\<lparr>is_sold := True, sold_at := Some 2, transaction_id := None,
     is_ended := True, ended_at := Some 2, pending_offer_price := None,
     pending_offer_from_user_id := None, pending_offer_at := None,
     c_updated_by := Some ''alice'', last_message_at := Some 2\<rparr>"





section \<open>Properties\<close>

subsection \<open>Lookups and writes\<close>

lemma find_map_update:
  "find (\<lambda>x. k x = i) xs = Some y \<Longrightarrow> k y' = i \<Longrightarrow>
   find (\<lambda>x. k x = i) (map (\<lambda>x. if k x = k y then y' else x) xs) = Some y'"
  by (induction xs) (auto split: if_splits)

lemma find_Some_key: "find (\<lambda>x. k x = i) xs = Some y \<Longrightarrow> k y = i"
  by (induction xs) (auto split: if_splits)

lemma find_Some_set: "find P xs = Some y \<Longrightarrow> y \<in> set xs \<and> P y"
  by (induction xs) (auto split: if_splits)

lemmas table_ops = add_message_def add_transaction_def add_notification_def
  add_conversation_def add_rating_def save_conversation_def save_item_def save_rating_def

lemma commit_simps [simp]:
  "db (commit t s) = t"
  "commit_log (commit t s) = commit_log s @ [t]"
  "active_connections (commit t s) = active_connections s"
  "sent (commit t s) = sent s"
  by (simp_all add: commit_def)

lemma send_json_simps [simp]:
  "db (send_json u e s) = db s"
  "commit_log (send_json u e s) = commit_log s"
  "active_connections (send_json u e s) = active_connections s"
  by (simp_all add: send_json_def)

lemma broadcast_simps [simp]:
  "db (broadcast_conversation_update now c s) = db s"
  "commit_log (broadcast_conversation_update now c s) = commit_log s"
  "active_connections (broadcast_conversation_update now c s) = active_connections s"
  by (simp_all add: broadcast_conversation_update_def Let_def)

lemma create_notification_simps [simp]:
  "users (db (create_notification s u ty ti m a b c)) = users (db s)"
  "items (db (create_notification s u ty ti m a b c)) = items (db s)"
  "conversations (db (create_notification s u ty ti m a b c)) = conversations (db s)"
  "messages (db (create_notification s u ty ti m a b c)) = messages (db s)"
  "transactions (db (create_notification s u ty ti m a b c)) = transactions (db s)"
  "ratings (db (create_notification s u ty ti m a b c)) = ratings (db s)"
  "active_connections (create_notification s u ty ti m a b c) = active_connections s"
  "sent (create_notification s u ty ti m a b c) = sent s"
  by (simp_all add: create_notification_def add_notification_def Let_def)

lemma get_item_cong: "items t' = items t \<Longrightarrow> get_item t' iid = get_item t iid"
  by (simp add: get_item_def split: option.split)

lemma get_conversation_cong:
  "conversations t' = conversations t \<Longrightarrow> get_conversation t' cid = get_conversation t cid"
  by (simp add: get_conversation_def)

lemma get_item_saved:
  "get_item t iid = Some it \<Longrightarrow> i_id it' = i_id it \<Longrightarrow>
   items t' = map (\<lambda>x. if i_id x = i_id it then it' else x) (items t) \<Longrightarrow>
   get_item t' iid = Some it'"
  unfolding get_item_def
  by (cases iid)
     (use find_map_update[of i_id _ "items t" it it'] find_Some_key[of i_id _ "items t" it]
      in auto)

lemma get_conversation_saved:
  "get_conversation t cid = Some c \<Longrightarrow> c_id c' = c_id c \<Longrightarrow>
   conversations t' = map (\<lambda>x. if c_id x = c_id c then c' else x) (conversations t) \<Longrightarrow>
   get_conversation t' cid = Some c'"
  unfolding get_conversation_def
  using find_map_update[of c_id "Some cid" "conversations t" c c']
    find_Some_key[of c_id "Some cid" "conversations t" c]
  by auto

subsection \<open>The marketplace of two\<close>

lemma world_offer_conversation: "get_conversation (db world_offer) 1 = Some conv_offer"
  by code_simp

lemma world_offer_item: "get_item (db world_offer) (item_id conv_offer) = Some book"
  by code_simp

lemma world_offer_transactions: "transactions (db world_offer) = []"
  by code_simp

subsection \<open>Responding without a pending offer\<close>

text \<open>
  Claim C7. When the conversation has no pending offer (the pending price or its author
  is absent, or zero), a participant's response, be it reject, counter or any other
  action, is answered with the client error 400 "No pending offer to respond to"; the
  handler returns this error as a value and the world is unchanged.
\<close>

theorem respond_without_pending_offer:
  assumes "get_conversation (db s) cid = Some c"
    and "u_id cu = user1_id c \<or> u_id cu = user2_id c"
    and "\<not> truthy (pending_offer_price c) \<or> \<not> truthy (pending_offer_from_user_id c)"
    and "action rd = Some ''reject'' \<or> action rd = Some ''counter''"
  shows "respond_to_offer s now cid rd cu
         = (s, Inl (HTTPException 400 ''No pending offer to respond to''))"
  using assms(1-3) by (auto simp: respond_to_offer_def pending_offer_def)

theorem respond_without_pending_offer_witness:
  "respond_to_offer world_rejected 3 1 reject bob
     = (world_rejected, Inl (HTTPException 400 ''No pending offer to respond to''))
   \<and> respond_to_offer world_rejected 3 1 (counter 45) bob
     = (world_rejected, Inl (HTTPException 400 ''No pending offer to respond to''))"
proof -
  define c where "c = conv_offer\<lparr>pending_offer_price := None,
      pending_offer_from_user_id := None, pending_offer_at := None,
      c_updated_by := Some ''alice'', last_message_at := Some 2\<rparr>"
  have h1: "get_conversation (db world_rejected) 1 = Some c"
    unfolding c_def by code_simp
  have h2: "u_id bob = user1_id c \<or> u_id bob = user2_id c"
    by (simp add: c_def bob_def conv_offer_def)
  have h3: "\<not> truthy (pending_offer_price c) \<or> \<not> truthy (pending_offer_from_user_id c)"
    by (simp add: c_def truthy_def)
  have h4: "action reject = Some ''reject'' \<or> action reject = Some ''counter''"
    by (simp add: reject_def)
  have h5: "action (counter 45) = Some ''reject'' \<or> action (counter 45) = Some ''counter''"
    by (simp add: counter_def)
  show ?thesis
    using respond_without_pending_offer[OF h1 h2 h3 h4]
      respond_without_pending_offer[OF h1 h2 h3 h5]
    by simp
qed

subsection \<open>Accepting an offer\<close>

lemma accept_writes_tables:
  "transactions (accept_writes t now cid c cents it cu)
     = transactions t @ [stored_transaction t (accept_transaction now cid c cents it cu)]"
  "items (accept_writes t now cid c cents it cu)
     = map (\<lambda>x. if i_id x = i_id it
                 then it\<lparr>status := ''SOLD'', i_updated_by := Some (username cu)\<rparr> else x)
         (items t)"
  "conversations (accept_writes t now cid c cents it cu)
     = map (\<lambda>x. if c_id x = c_id c
                 then accept_conversation now c (accept_transaction now cid c cents it cu) cu
                 else x) (conversations t)"
  "users (accept_writes t now cid c cents it cu) = users t"
  "notifications (accept_writes t now cid c cents it cu) = notifications t"
  "ratings (accept_writes t now cid c cents it cu) = ratings t"
  by (simp_all add: accept_writes_def Let_def table_ops accept_conversation_def)

lemma accept_offer_snd:
  "snd (accept_offer s now cid c cents it cu)
     = Inr (TransactionResponse
              (stored_transaction (db s) (accept_transaction now cid c cents it cu)))"
  by (simp add: accept_offer_def Let_def)

lemma accept_offer_log:
  "\<exists>rest. commit_log (fst (accept_offer s now cid c cents it cu))
     = commit_log s @ accept_writes (db s) now cid c cents it cu # rest"
  by (simp add: accept_offer_def Let_def create_notification_def split: option.split)

lemma accept_offer_db:
  "transactions (db (fst (accept_offer s now cid c cents it cu)))
     = transactions (accept_writes (db s) now cid c cents it cu)"
  "items (db (fst (accept_offer s now cid c cents it cu)))
     = items (accept_writes (db s) now cid c cents it cu)"
  "conversations (db (fst (accept_offer s now cid c cents it cu)))
     = conversations (accept_writes (db s) now cid c cents it cu)"
  by (simp_all add: accept_offer_def Let_def split: option.split)

text \<open>
  Claim C1. A participant accepts the pending offer of a conversation whose item
  exists. Then exactly one transaction row is appended; its sale price is the pending
  price in cents divided by 100, its seller is the item's owner and its buyer the
  participant who is not the owner, whoever authored the offer; the item's status is
  SOLD; the conversation is sold and ended and its three pending-offer fields are
  absent. The first snapshot the handler commits already holds the transaction, the
  sold item and the updated conversation. The two participants of a conversation are
  distinct users (\<^verbatim>\<open>create_conversation\<close> refuses a conversation with oneself).
\<close>

theorem accept_creates_transaction:
  assumes conv: "get_conversation (db s) cid = Some c"
    and part: "u_id cu = user1_id c \<or> u_id cu = user2_id c"
    and price: "pending_offer_price c = Some cents" "cents \<noteq> 0"
    and author: "pending_offer_from_user_id c = Some proposer" "proposer \<noteq> 0"
    and item: "get_item (db s) (item_id c) = Some it"
    and pair: "user1_id c \<noteq> user2_id c"
    and act: "action rd = Some ''accept''"
  shows "\<exists>s' tx c' it' snap rest.
     respond_to_offer s now cid rd cu = (s', Inr (TransactionResponse tx)) \<and>
     transactions (db s') = transactions (db s) @ [tx] \<and>
     sale_price tx = of_int cents / 100 \<and>
     tx_seller_id tx = seller_id it \<and>
     tx_buyer_id tx = (if user1_id c = seller_id it then user2_id c else user1_id c) \<and>
     tx_buyer_id tx \<in> {user1_id c, user2_id c} \<and> tx_buyer_id tx \<noteq> seller_id it \<and>
     get_item (db s') (item_id c) = Some it' \<and> status it' = ''SOLD'' \<and>
     get_conversation (db s') cid = Some c' \<and> is_sold c' \<and> is_ended c' \<and>
     pending_offer_price c' = None \<and> pending_offer_from_user_id c' = None \<and>
     pending_offer_at c' = None \<and>
     commit_log s' = commit_log s @ snap # rest \<and>
     transactions snap = transactions (db s) @ [tx] \<and>
     get_item snap (item_id c) = Some it' \<and> get_conversation snap cid = Some c'"
proof -
  have po: "pending_offer c = Some (cents, proposer)"
    using price author by (simp add: pending_offer_def truthy_def)
  have r: "respond_to_offer s now cid rd cu = accept_offer s now cid c cents it cu"
    using conv part po item act by (auto simp: respond_to_offer_def)
  define tx0 where "tx0 = accept_transaction now cid c cents it cu"
  define tx where "tx = stored_transaction (db s) tx0"
  define it' where "it' = it\<lparr>status := ''SOLD'', i_updated_by := Some (username cu)\<rparr>"
  define c' where "c' = accept_conversation now c tx0 cu"
  define snap where "snap = accept_writes (db s) now cid c cents it cu"
  define s' where "s' = fst (accept_offer s now cid c cents it cu)"
  have res: "respond_to_offer s now cid rd cu = (s', Inr (TransactionResponse tx))"
    unfolding r s'_def tx_def tx0_def
    by (metis accept_offer_snd prod.collapse)
  obtain rest where rest: "commit_log s' = commit_log s @ snap # rest"
    unfolding s'_def snap_def using accept_offer_log by blast
  have snap_tx: "transactions snap = transactions (db s) @ [tx]"
    by (simp add: snap_def tx_def tx0_def accept_writes_tables)
  have snap_it: "get_item snap (item_id c) = Some it'"
    by (rule get_item_saved[OF item]) (simp_all add: snap_def it'_def accept_writes_tables)
  have snap_c: "get_conversation snap cid = Some c'"
    by (rule get_conversation_saved[OF conv])
       (simp_all add: snap_def c'_def tx0_def accept_writes_tables accept_conversation_def)
  have fin_tx: "transactions (db s') = transactions (db s) @ [tx]"
    using snap_tx by (simp add: s'_def snap_def accept_offer_db)
  have fin_it: "get_item (db s') (item_id c) = Some it'"
    using snap_it get_item_cong[of "db s'" snap] by (simp add: s'_def snap_def accept_offer_db)
  have fin_c: "get_conversation (db s') cid = Some c'"
    using snap_c get_conversation_cong[of "db s'" snap]
    by (simp add: s'_def snap_def accept_offer_db)
  have tx_fields: "sale_price tx = of_int cents / 100" "tx_seller_id tx = seller_id it"
    "tx_buyer_id tx = (if user1_id c = seller_id it then user2_id c else user1_id c)"
    by (simp_all add: tx_def tx0_def stored_transaction_def accept_transaction_def Let_def)
  have buyer: "tx_buyer_id tx \<in> {user1_id c, user2_id c}" "tx_buyer_id tx \<noteq> seller_id it"
    using pair by (auto simp: tx_fields)
  have c'_fields: "is_sold c'" "is_ended c'" "pending_offer_price c' = None"
    "pending_offer_from_user_id c' = None" "pending_offer_at c' = None"
    by (simp_all add: c'_def accept_conversation_def)
  have "status it' = ''SOLD''" by (simp add: it'_def)
  with res fin_tx tx_fields buyer fin_it fin_c c'_fields rest snap_tx snap_it snap_c
  show ?thesis by blast
qed


theorem accept_creates_transaction_witness:
  "get_conversation (db world_offer) 1 = Some conv_offer
   \<and> (u_id alice = user1_id conv_offer \<or> u_id alice = user2_id conv_offer)
   \<and> pending_offer_price conv_offer = Some 5000
   \<and> pending_offer_from_user_id conv_offer = Some 2
   \<and> get_item (db world_offer) (item_id conv_offer) = Some book
   \<and> user1_id conv_offer \<noteq> user2_id conv_offer
   \<and> action accept = Some ''accept''
   \<and> (\<exists>s' tx c' it'.
        respond_to_offer world_offer 2 1 accept alice = (s', Inr (TransactionResponse tx))
        \<and> transactions (db s') = [tx]
        \<and> sale_price tx = 50 \<and> tx_seller_id tx = 1 \<and> tx_buyer_id tx = 2
        \<and> get_item (db s') (Some 10) = Some it' \<and> status it' = ''SOLD''
        \<and> get_conversation (db s') 1 = Some c' \<and> is_sold c' \<and> is_ended c'
        \<and> pending_offer_price c' = None \<and> pending_offer_from_user_id c' = None
        \<and> pending_offer_at c' = None)"
proof -
  have h2: "u_id alice = user1_id conv_offer \<or> u_id alice = user2_id conv_offer"
    by (simp add: alice_def conv_offer_def)
  have h3: "pending_offer_price conv_offer = Some 5000" "(5000::int) \<noteq> 0"
    by (simp_all add: conv_offer_def)
  have h4: "pending_offer_from_user_id conv_offer = Some 2" "(2::int) \<noteq> 0"
    by (simp_all add: conv_offer_def)
  have h6: "user1_id conv_offer \<noteq> user2_id conv_offer"
    by (simp add: conv_offer_def)
  have h7: "action accept = Some ''accept''"
    by (simp add: accept_def)
  have i: "item_id conv_offer = Some 10" "seller_id book = 1" "user1_id conv_offer = 2"
    "user2_id conv_offer = 1"
    by (simp_all add: conv_offer_def book_def)
  from accept_creates_transaction[OF world_offer_conversation h2 h3 h4 world_offer_item h6 h7,
      of 2]
  obtain s' tx c' it' where
    "respond_to_offer world_offer 2 1 accept alice = (s', Inr (TransactionResponse tx))"
    "transactions (db s') = [tx]"
    "sale_price tx = 50" "tx_seller_id tx = 1" "tx_buyer_id tx = 2"
    "get_item (db s') (Some 10) = Some it'" "status it' = ''SOLD''"
    "get_conversation (db s') 1 = Some c'" "is_sold c'" "is_ended c'"
    "pending_offer_price c' = None" "pending_offer_from_user_id c' = None"
    "pending_offer_at c' = None"
    unfolding i world_offer_transactions by auto
  then show ?thesis
    using world_offer_conversation h2 h3(1) h4(1) world_offer_item h6 h7 by blast
qed

lemma broadcast_sent:
  "sent (broadcast_conversation_update now c s)
     = sent s @ map (\<lambda>u. (u, ConversationUpdated (conversation_update_payload (db s) now c)))
                  (filter (\<lambda>u. u \<in> active_connections s) [user1_id c, user2_id c])"
  by (simp add: broadcast_conversation_update_def send_json_def Let_def)

lemma accept_conversation_ids [simp]:
  "c_id (accept_conversation now c tx cu) = c_id c"
  "user1_id (accept_conversation now c tx cu) = user1_id c"
  "user2_id (accept_conversation now c tx cu) = user2_id c"
  by (simp_all add: accept_conversation_def)

lemma payload_cong:
  "items t' = items t \<Longrightarrow> transactions t' = transactions t \<Longrightarrow>
   conversation_update_payload t' now c = conversation_update_payload t now c"
  by (simp add: conversation_update_payload_def get_transaction_def get_item_cong[of t' t]
      split: option.split)

lemma accept_offer_fst:
  "\<exists>s3. fst (accept_offer s now cid c cents it cu)
          = broadcast_conversation_update now
              (accept_conversation now c (accept_transaction now cid c cents it cu) cu) s3
        \<and> active_connections s3 = active_connections s
        \<and> items (db s3) = items (accept_writes (db s) now cid c cents it cu)
        \<and> transactions (db s3) = transactions (accept_writes (db s) now cid c cents it cu)"
  unfolding accept_offer_def Let_def fst_conv
  by (rule exI, rule conjI, rule refl) (simp split: option.split)

lemma accept_offer_sent:
  "\<exists>pre. sent (fst (accept_offer s now cid c cents it cu))
     = pre @ map (\<lambda>u. (u, ConversationUpdated
                     (conversation_update_payload
                        (accept_writes (db s) now cid c cents it cu) now
                        (accept_conversation now c
                           (accept_transaction now cid c cents it cu) cu))))
                  (filter (\<lambda>u. u \<in> active_connections s) [user1_id c, user2_id c])"
proof -
  obtain s3 where s3: "fst (accept_offer s now cid c cents it cu)
          = broadcast_conversation_update now
              (accept_conversation now c (accept_transaction now cid c cents it cu) cu) s3"
     "active_connections s3 = active_connections s"
     "items (db s3) = items (accept_writes (db s) now cid c cents it cu)"
     "transactions (db s3) = transactions (accept_writes (db s) now cid c cents it cu)"
    using accept_offer_fst by blast
  show ?thesis
    by (rule exI[of _ "sent s3"])
       (simp only: s3(1) broadcast_sent s3(2) accept_conversation_ids payload_cong[OF s3(3,4)])
qed

lemma payload_fields:
  "cu_conversation_id (conversation_update_payload t now c) = c_id c"
  "cu_is_sold (conversation_update_payload t now c) = is_sold c"
  "cu_is_ended (conversation_update_payload t now c) = is_ended c"
  "cu_transaction_id (conversation_update_payload t now c) = transaction_id c"
  "transaction_id c = None \<Longrightarrow> cu_transaction (conversation_update_payload t now c) = None"
  by (simp_all add: conversation_update_payload_def Let_def truthy_def)

text \<open>
  Claim C5. After a successful accept the stored conversation row has no
  \<^verbatim>\<open>transaction_id\<close>: the handler copies \<^verbatim>\<open>transaction.id\<close> while the new transaction
  is still unflushed, so it copies \<open>None\<close>, although the inserted transaction does get an
  id. The conversation-update events that the handler then sends to the connected
  participants carry that absent \<^verbatim>\<open>transaction_id\<close> and no transaction.
\<close>

theorem accept_leaves_transaction_id_null:
  assumes conv: "get_conversation (db s) cid = Some c"
    and part: "u_id cu = user1_id c \<or> u_id cu = user2_id c"
    and price: "pending_offer_price c = Some cents" "cents \<noteq> 0"
    and author: "pending_offer_from_user_id c = Some proposer" "proposer \<noteq> 0"
    and item: "get_item (db s) (item_id c) = Some it"
    and act: "action rd = Some ''accept''"
  shows "\<exists>s' tx c' pre p.
     respond_to_offer s now cid rd cu = (s', Inr (TransactionResponse tx)) \<and>
     transactions (db s') = transactions (db s) @ [tx] \<and>
     tx_id tx = Some (next_transaction_id (db s)) \<and>
     get_conversation (db s') cid = Some c' \<and> is_sold c' \<and> transaction_id c' = None \<and>
     sent s' = pre @ map (\<lambda>u. (u, ConversationUpdated p))
                       (filter (\<lambda>u. u \<in> active_connections s) [user1_id c, user2_id c]) \<and>
     cu_conversation_id p = Some cid \<and> cu_is_sold p \<and>
     cu_transaction_id p = None \<and> cu_transaction p = None"
proof -
  have po: "pending_offer c = Some (cents, proposer)"
    using price author by (simp add: pending_offer_def truthy_def)
  have r: "respond_to_offer s now cid rd cu = accept_offer s now cid c cents it cu"
    using conv part po item act by (auto simp: respond_to_offer_def)
  define tx0 where "tx0 = accept_transaction now cid c cents it cu"
  define tx where "tx = stored_transaction (db s) tx0"
  define c' where "c' = accept_conversation now c tx0 cu"
  define s' where "s' = fst (accept_offer s now cid c cents it cu)"
  have res: "respond_to_offer s now cid rd cu = (s', Inr (TransactionResponse tx))"
    unfolding r s'_def tx_def tx0_def by (metis accept_offer_snd prod.collapse)
  have txs: "transactions (db s') = transactions (db s) @ [tx]"
    by (simp add: s'_def tx_def tx0_def accept_offer_db accept_writes_tables)
  have tid: "tx_id tx = Some (next_transaction_id (db s))"
    by (simp add: tx_def stored_transaction_def)
  have "get_conversation (accept_writes (db s) now cid c cents it cu) cid = Some c'"
    by (rule get_conversation_saved[OF conv])
       (simp_all add: c'_def tx0_def accept_writes_tables accept_conversation_def)
  then have fin_c: "get_conversation (db s') cid = Some c'"
    using get_conversation_cong[of "db s'" "accept_writes (db s) now cid c cents it cu"]
    by (simp add: s'_def accept_offer_db)
  have c'_fields: "is_sold c'" "transaction_id c' = None" "c_id c' = Some cid"
    "user1_id c' = user1_id c" "user2_id c' = user2_id c"
    using find_Some_key[of c_id "Some cid" "conversations (db s)" c] conv
    by (simp_all add: c'_def tx0_def accept_conversation_def accept_transaction_def Let_def
        get_conversation_def)
  define p where "p = conversation_update_payload
      (accept_writes (db s) now cid c cents it cu) now c'"
  obtain pre where sent: "sent s' = pre @ map (\<lambda>u. (u, ConversationUpdated p))
      (filter (\<lambda>u. u \<in> active_connections s) [user1_id c, user2_id c])"
    unfolding s'_def p_def c'_def tx0_def using accept_offer_sent by blast
  have p: "cu_conversation_id p = Some cid" "cu_is_sold p" "cu_transaction_id p = None"
    "cu_transaction p = None"
    using c'_fields by (simp_all add: p_def payload_fields)
  from res txs tid fin_c c'_fields(1,2) sent p show ?thesis by blast
qed


theorem accept_leaves_transaction_id_null_witness:
  "get_conversation (db world_offer) 1 = Some conv_offer
   \<and> (u_id alice = user1_id conv_offer \<or> u_id alice = user2_id conv_offer)
   \<and> pending_offer_price conv_offer = Some 5000
   \<and> pending_offer_from_user_id conv_offer = Some 2
   \<and> get_item (db world_offer) (item_id conv_offer) = Some book
   \<and> action accept = Some ''accept''
   \<and> (\<exists>s' tx c' pre p.
        respond_to_offer world_offer 2 1 accept alice = (s', Inr (TransactionResponse tx))
        \<and> transactions (db s') = [tx] \<and> tx_id tx = Some 1
        \<and> get_conversation (db s') 1 = Some c' \<and> is_sold c' \<and> transaction_id c' = None
        \<and> sent s' = pre @ [(2, ConversationUpdated p), (1, ConversationUpdated p)]
        \<and> cu_conversation_id p = Some 1 \<and> cu_is_sold p
        \<and> cu_transaction_id p = None \<and> cu_transaction p = None)"
proof -
  have h2: "u_id alice = user1_id conv_offer \<or> u_id alice = user2_id conv_offer"
    by (simp add: alice_def conv_offer_def)
  have h3: "pending_offer_price conv_offer = Some 5000" "(5000::int) \<noteq> 0"
    by (simp_all add: conv_offer_def)
  have h4: "pending_offer_from_user_id conv_offer = Some 2" "(2::int) \<noteq> 0"
    by (simp_all add: conv_offer_def)
  have h7: "action accept = Some ''accept''"
    by (simp add: accept_def)
  have i: "next_transaction_id (db world_offer) = 1"
    "filter (\<lambda>u. u \<in> active_connections world_offer) [user1_id conv_offer, user2_id conv_offer]
       = [2, 1]"
    by code_simp+
  from accept_leaves_transaction_id_null[OF world_offer_conversation h2 h3 h4
      world_offer_item h7, of 2]
  have "\<exists>s' tx c' pre p.
        respond_to_offer world_offer 2 1 accept alice = (s', Inr (TransactionResponse tx))
        \<and> transactions (db s') = [tx] \<and> tx_id tx = Some 1
        \<and> get_conversation (db s') 1 = Some c' \<and> is_sold c' \<and> transaction_id c' = None
        \<and> sent s' = pre @ [(2, ConversationUpdated p), (1, ConversationUpdated p)]
        \<and> cu_conversation_id p = Some 1 \<and> cu_is_sold p
        \<and> cu_transaction_id p = None \<and> cu_transaction p = None"
    unfolding i world_offer_transactions by simp
  then show ?thesis
    using world_offer_conversation h2 h3(1) h4(1) world_offer_item h7 by blast
qed

subsection \<open>Who may respond\<close>

lemma reachable_world_offer: "reachable world_offer"
  unfolding world_offer_def world_conv_def
  by (intro reachable.offer reachable.create reachable.fresh) (simp add: world0_def fresh_db_def)

text \<open>
  Claim C6. \<^verbatim>\<open>respond_to_offer\<close> checks that the caller is a participant and never
  compares the caller with the author of the pending offer. In the reachable world
  where Bob has just offered 50 for Alice's book, Bob himself accepts his own offer and
  the transaction is created.
\<close>

theorem author_accepts_own_offer:
  "reachable world_offer
   \<and> get_conversation (db world_offer) 1 = Some conv_offer
   \<and> pending_offer_from_user_id conv_offer = Some (u_id bob)
   \<and> transactions (db world_offer) = []
   \<and> snd (respond_to_offer world_offer 2 1 accept bob) = Inr (TransactionResponse sale_by_bob)
   \<and> transactions (db (fst (respond_to_offer world_offer 2 1 accept bob))) = [sale_by_bob]"
proof -
  have a: "pending_offer_from_user_id conv_offer = Some (u_id bob)"
    by (simp add: conv_offer_def bob_def)
  have b: "snd (respond_to_offer world_offer 2 1 accept bob) = Inr (TransactionResponse sale_by_bob)"
    by code_simp
  have c: "transactions (db (fst (respond_to_offer world_offer 2 1 accept bob))) = [sale_by_bob]"
    by code_simp
  show ?thesis
    using reachable_world_offer world_offer_conversation a world_offer_transactions b c
    by (intro conjI)
qed

subsection \<open>Rejecting an offer\<close>

text \<open>
  Claim C3. Rejecting a pending offer clears the pending-offer fields and appends the
  rejection message, but no notification reaches the author of the offer: the handler
  reads \<^verbatim>\<open>conversation.pending_offer_from_user_id\<close> after it has set it to \<open>None\<close>, so
  its "notify the offer sender" block never runs. Here Alice rejects Bob's offer: Bob
  is a stored user, yet the notifications table is what it was before and holds
  nothing addressed to Bob.
\<close>

theorem reject_creates_no_notification:
  "get_conversation (db world_offer) 1 = Some conv_offer
   \<and> pending_offer_from_user_id conv_offer = Some (u_id bob)
   \<and> get_user (db world_offer) (u_id bob) = Some bob
   \<and> snd (respond_to_offer world_offer 2 1 reject alice) = Inr OfferRejected
   \<and> map pending_offer_from_user_id (conversations (db world_rejected)) = [None]
   \<and> map content (messages (db world_rejected)) = [OfferText 50, RejectedOfferText]
   \<and> notifications (db world_rejected) = notifications (db world_offer)
   \<and> map n_user_id (notifications (db world_rejected)) = [u_id alice]"
proof -
  have a: "pending_offer_from_user_id conv_offer = Some (u_id bob)"
    by (simp add: conv_offer_def bob_def)
  have b: "get_user (db world_offer) (u_id bob) = Some bob"
    by code_simp
  have c: "snd (respond_to_offer world_offer 2 1 reject alice) = Inr OfferRejected"
    by code_simp
  have d: "map pending_offer_from_user_id (conversations (db world_rejected)) = [None]"
    by code_simp
  have e: "map content (messages (db world_rejected)) = [OfferText 50, RejectedOfferText]"
    by code_simp
  have f: "notifications (db world_rejected) = notifications (db world_offer)"
    by code_simp
  have g: "map n_user_id (notifications (db world_rejected)) = [u_id alice]"
    by code_simp
  show ?thesis
    using world_offer_conversation a b c d e f g by (intro conjI)
qed

subsection \<open>Countering an offer\<close>




subsection \<open>A sold conversation has no pending offer\<close>

lemma set_map_update:
  "c \<in> set (map (\<lambda>x. if k x = i then c' else x) xs) \<Longrightarrow> c \<in> set xs \<or> c = c'"
  by (induction xs) (auto split: if_splits)

lemma pending_offer_state:
  "offer_state c = offer_state c0 \<Longrightarrow> is_sold c = is_sold c0 \<and> pending_offer c = pending_offer c0"
  by (simp add: offer_state_def pending_offer_def)

lemma create_conversation_rows:
  "c \<in> set (conversations (db (fst (create_conversation s now d u)))) \<Longrightarrow>
   c \<in> set (conversations (db s)) \<or> \<not> is_sold c"
  by (auto simp: create_conversation_def Let_def table_ops stored_conversation_def
      switch_item_def split: option.splits if_splits dest!: set_map_update)

lemma send_purchase_offer_rows:
  "c \<in> set (conversations (db (fst (send_purchase_offer s now cid p u)))) \<Longrightarrow>
   c \<in> set (conversations (db s)) \<or> \<not> is_sold c"
  by (auto simp: send_purchase_offer_def Let_def table_ops
      split: option.splits if_splits dest!: set_map_update)

lemma continue_conversation_rows:
  "c \<in> set (conversations (db (fst (continue_conversation s cid u)))) \<Longrightarrow>
   \<exists>c0 \<in> set (conversations (db s)). offer_state c = offer_state c0"
  by (auto simp: continue_conversation_def Let_def table_ops offer_state_def get_conversation_def
      split: option.splits if_splits dest!: set_map_update find_Some_set)

lemma accept_offer_rows:
  "c \<in> set (conversations (db (fst (accept_offer s now cid c0 cents it u)))) \<Longrightarrow>
   c \<in> set (conversations (db s)) \<or> pending_offer c = None"
  by (auto simp: accept_offer_db accept_writes_tables accept_conversation_def pending_offer_def
      truthy_def dest!: set_map_update)

lemma reject_offer_rows:
  "c \<in> set (conversations (db (fst (reject_offer s now cid c0 it u)))) \<Longrightarrow>
   c \<in> set (conversations (db s)) \<or> pending_offer c = None"
  by (auto simp: reject_offer_def Let_def table_ops pending_offer_def truthy_def
      split: option.splits if_splits dest!: set_map_update)

lemma counter_offer_rows:
  "c \<in> set (conversations (db (fst (counter_offer s now cid c0 it cp u)))) \<Longrightarrow>
   c \<in> set (conversations (db s)) \<or> is_sold c = is_sold c0"
  by (auto simp: counter_offer_def Let_def table_ops
      split: option.splits if_splits dest!: set_map_update)

lemma respond_to_offer_rows:
  assumes inv: "\<forall>c \<in> set (conversations (db s)). is_sold c \<longrightarrow> pending_offer c = None"
    and c: "c \<in> set (conversations (db (fst (respond_to_offer s now cid rd u))))"
  shows "is_sold c \<longrightarrow> pending_offer c = None"
proof (cases "get_conversation (db s) cid")
  case None
  then show ?thesis using inv c by (simp add: respond_to_offer_def)
next
  case (Some c0)
  then have c0: "c0 \<in> set (conversations (db s))"
    using find_Some_set[of _ "conversations (db s)" c0] by (simp add: get_conversation_def)
  show ?thesis
  proof (cases "pending_offer c0")
    case None
    then show ?thesis using inv c Some by (simp add: respond_to_offer_def split: if_splits)
  next
    case (Some po)
    then have unsold: "\<not> is_sold c0" using inv c0 by auto
    obtain cents author where po: "po = (cents, author)" by (cases po)
    show ?thesis
    proof (cases "get_item (db s) (item_id c0)")
      case None
      then show ?thesis using inv c \<open>get_conversation (db s) cid = Some c0\<close> Some
        by (simp add: respond_to_offer_def split: if_splits)
    next
      case (Some it)
      then show ?thesis
        using inv c \<open>get_conversation (db s) cid = Some c0\<close> \<open>pending_offer c0 = Some po\<close> po unsold
        by (auto simp: respond_to_offer_def split: if_splits
            dest!: accept_offer_rows reject_offer_rows counter_offer_rows)
    qed
  qed
qed

lemma reachable_sold_no_offer:
  "reachable s \<Longrightarrow> \<forall>c \<in> set (conversations (db s)). is_sold c \<longrightarrow> pending_offer c = None"
proof (induction rule: reachable.induct)
  case (fresh s)
  then show ?case by simp
next
  case (other s s')
  show ?case
  proof (intro ballI impI)
    fix c assume c: "c \<in> set (conversations (db s'))" and sold: "is_sold c"
    then obtain c0 where c0: "c0 \<in> set (conversations (db s))" "offer_state c = offer_state c0"
      using other.hyps(2) by (metis image_iff subsetD)
    then show "pending_offer c = None"
      using other.IH sold pending_offer_state[OF c0(2)] by auto
  qed
next
  case (create s now conversation_data u)
  then show ?case using create_conversation_rows by blast
next
  case (offer s now cid p u)
  then show ?case using send_purchase_offer_rows by blast
next
  case (respond s now cid rd u)
  then show ?case using respond_to_offer_rows by blast
next
  case (continue s cid u)
  show ?case
  proof (intro ballI impI)
    fix c assume c: "c \<in> set (conversations (db (fst (continue_conversation s cid u))))"
      and sold: "is_sold c"
    then obtain c0 where c0: "c0 \<in> set (conversations (db s))" "offer_state c = offer_state c0"
      using continue_conversation_rows by blast
    then show "pending_offer c = None"
      using continue.IH sold pending_offer_state[OF c0(2)] by auto
  qed
qed

text \<open>
  Claim C2. In every reachable world, a participant's accept on a conversation that
  is already sold is answered with a client error and creates no transaction: a sold
  conversation never has a pending offer, so the handler's pending-offer guard raises
  400 "No pending offer to respond to" and the world is unchanged.
\<close>

theorem accept_on_sold_conversation:
  assumes "reachable s"
    and "get_conversation (db s) cid = Some c"
    and "is_sold c"
    and "u_id cu = user1_id c \<or> u_id cu = user2_id c"
    and "action rd = Some ''accept''"
  shows "respond_to_offer s now cid rd cu
           = (s, Inl (HTTPException 400 ''No pending offer to respond to''))
         \<and> transactions (db (fst (respond_to_offer s now cid rd cu))) = transactions (db s)"
proof -
  have "c \<in> set (conversations (db s))"
    using assms(2) find_Some_set[of _ "conversations (db s)" c]
    by (simp add: get_conversation_def)
  then have "pending_offer c = None"
    using reachable_sold_no_offer[OF assms(1)] assms(3) by blast
  then have "respond_to_offer s now cid rd cu
           = (s, Inl (HTTPException 400 ''No pending offer to respond to''))"
    using assms(2,4) by (auto simp: respond_to_offer_def)
  then show ?thesis by simp
qed


lemma world_sold_conversation: "get_conversation (db world_sold) 1 = Some conv_sold"
  by code_simp

theorem accept_on_sold_conversation_witness:
  "reachable world_sold
   \<and> get_conversation (db world_sold) 1 = Some conv_sold
   \<and> is_sold conv_sold
   \<and> (u_id bob = user1_id conv_sold \<or> u_id bob = user2_id conv_sold)
   \<and> action accept = Some ''accept''
   \<and> respond_to_offer world_sold 3 1 accept bob
        = (world_sold, Inl (HTTPException 400 ''No pending offer to respond to''))
   \<and> transactions (db (fst (respond_to_offer world_sold 3 1 accept bob)))
        = transactions (db world_sold)"
proof -
  have h1: "reachable world_sold"
    unfolding world_sold_def by (rule reachable.respond[OF reachable_world_offer])
  have h3: "is_sold conv_sold"
    by (simp add: conv_sold_def)
  have h4: "u_id bob = user1_id conv_sold \<or> u_id bob = user2_id conv_sold"
    by (simp add: conv_sold_def conv_offer_def bob_def)
  have h5: "action accept = Some ''accept''"
    by (simp add: accept_def)
  show ?thesis
    using accept_on_sold_conversation[OF h1 world_sold_conversation h3 h4 h5, of 3]
      h1 world_sold_conversation h3 h4 h5
    by simp
qed

subsection \<open>Creating or reusing a conversation\<close>














subsection \<open>Ratings\<close>


















end
